theory Spec2Isabelle
  imports Main "HOL-Library.Sublist"
begin

section \<open>Package messages\<close>

text \<open>
  \<^verbatim>\<open>messages.Message\<close> as \<^verbatim>\<open>bot.go\<close> and \<^verbatim>\<open>providers/slack.go\<close> use it: \<^verbatim>\<open>Process\<close>
  builds its help reply from \<^verbatim>\<open>Room\<close>, \<^verbatim>\<open>ToUserID\<close>, \<^verbatim>\<open>ToUserName\<close> and \<^verbatim>\<open>Message\<close>;
  \<^verbatim>\<open>intakeLoop\<close> sets \<^verbatim>\<open>Room\<close>, \<^verbatim>\<open>FromUserID\<close>, \<^verbatim>\<open>FromUserName\<close>, \<^verbatim>\<open>Message\<close> and
  \<^verbatim>\<open>Direct\<close>; \<^verbatim>\<open>dispatchLoop\<close> reads \<^verbatim>\<open>ToUserID\<close>. A field that a composite literal
  leaves out has Go's zero value (the empty string, false).
\<close>

record Message =
  Room :: string
  FromUserID :: string
  FromUserName :: string
  ToUserID :: string
  ToUserName :: string
  Message :: string
  Direct :: bool

text \<open>
  The declaration \<^verbatim>\<open>type Message struct\<close> of package \<^verbatim>\<open>messages\<close> itself has four
  fields, \<^verbatim>\<open>Room\<close>, \<^verbatim>\<open>FromUserID\<close>, \<^verbatim>\<open>FromUserName\<close> and \<^verbatim>\<open>Message\<close>: it has no
  \<^verbatim>\<open>ToUserID\<close>, \<^verbatim>\<open>ToUserName\<close> or \<^verbatim>\<open>Direct\<close>, which the two packages above name in their
  composite literals and selectors.
\<close>

record declaredMessage =
  declRoom :: string
  declFromUserID :: string
  declFromUserName :: string
  declMessage :: string

text \<open>
  What a value of the declared structure holds of a message. This is no function of
  the program; it serves to say which fields the declaration has a place for.
\<close>

definition declared :: "Message \<Rightarrow> declaredMessage" where
  "declared m = \<lparr>declRoom = Room m, declFromUserID = FromUserID m,
                  declFromUserName = FromUserName m, declMessage = Message m\<rparr>"

section \<open>Package bot\<close>

subsection \<open>The bot and its rules\<close>

text \<open>
  A value \<^verbatim>\<open>panic(v)\<close> that unwinds a goroutine. A call that may panic returns
  \<open>Inl\<close> of it, one that returns normally \<open>Inr\<close> of its result.
\<close>

datatype panic = Panic string

text \<open>
  \<^verbatim>\<open>Self\<close>: the name, the rules and the brain. \<open>'r\<close> is the type of the values
  behind the interface \<^verbatim>\<open>RuleParser\<close>, \<open>'b\<close> that of the values behind
  \<^verbatim>\<open>brain.Memorizer\<close>. The two channels are not fields of the model: what arrives on
  \<^verbatim>\<open>providerIn\<close> is the list of messages given to the loop, what is sent on
  \<^verbatim>\<open>providerOut\<close> is the list of messages a task returns.
\<close>

record ('r, 'b) Self =
  name :: string
  rules :: "'r list"
  brain :: 'b

text \<open>
  The interface \<^verbatim>\<open>RuleParser\<close> is declared outside the files at hand; its two methods
  are called here as \<^verbatim>\<open>rule.ParseMessage(self, msg)\<close> and \<^verbatim>\<open>rule.HelpMessage(self)\<close>.
  They are parameters of the model: the method table of the rule values.
\<close>

record ('r, 'b) RuleParser =
  ParseMessage :: "'r \<Rightarrow> ('r, 'b) Self \<Rightarrow> Message \<Rightarrow> panic + Message list"
  HelpMessage :: "'r \<Rightarrow> ('r, 'b) Self \<Rightarrow> panic + string"

definition Name :: "('r, 'b) Self \<Rightarrow> string" where
  "Name s = name s"

subsection \<open>fmt.Sprintln on strings\<close>

text \<open>
  \<^verbatim>\<open>fmt.Sprintln\<close> writes its operands in their default format (a string as it is),
  always puts a space between two operands, and appends a newline.
\<close>

fun Sprintln :: "string list \<Rightarrow> string" where
  "Sprintln [] = [CHR 0x0A]"
| "Sprintln [a] = a @ [CHR 0x0A]"
| "Sprintln (a # b # cs) = a @ CHR 0x20 # Sprintln (b # cs)"

subsection \<open>The two tasks of Process\<close>

text \<open>
  What one goroutine of \<^verbatim>\<open>Process\<close> did when it ended: the messages it sent on
  \<^verbatim>\<open>providerOut\<close>, in the order of the sends, and how it ended. \<open>Recovered\<close> is the
  deferred \<^verbatim>\<open>recover()\<close> of the rule task, which logs the panic. The help task defers
  nothing: a panic there, which comes before its only send, ends the process
  (\<open>Crashed\<close>).
\<close>

datatype outcome =
  Finished "Message list"
| Recovered "Message list" panic
| Crashed panic

fun sent :: "outcome \<Rightarrow> Message list" where
  "sent (Finished ms) = ms"
| "sent (Recovered ms p) = ms"
| "sent (Crashed p) = []"

fun crashed :: "outcome \<Rightarrow> bool" where
  "crashed (Crashed p) = True"
| "crashed _ = False"

text \<open>
  The loop \<^verbatim>\<open>for _, rule := range s.rules { helpMsg = fmt.Sprintln(helpMsg,
  rule.HelpMessage(self)) }\<close> of the help task, on the rules still to visit.
\<close>

fun helpLoop ::
  "('r, 'b) RuleParser \<Rightarrow> ('r, 'b) Self \<Rightarrow> 'r list \<Rightarrow> string \<Rightarrow> panic + string" where
  "helpLoop R self [] helpMsg = Inr helpMsg"
| "helpLoop R self (rule # rs) helpMsg =
     (case HelpMessage R rule self of
        Inl p \<Rightarrow> Inl p
      | Inr h \<Rightarrow> helpLoop R self rs (Sprintln [helpMsg, h]))"

text \<open>
  The help task \<^verbatim>\<open>go func(self Self, msg messages.Message) {...}(*s, in)\<close>: \<open>s\<close> is
  the bot the closure reads through its pointer, \<open>self\<close> the copy made at the call.
\<close>

definition helpTask ::
  "('r, 'b) RuleParser \<Rightarrow> ('r, 'b) Self \<Rightarrow> ('r, 'b) Self \<Rightarrow> Message \<Rightarrow> outcome" where
  "helpTask R s self msg =
     (case helpLoop R self (rules s) (Sprintln [''available commands:'']) of
        Inl p \<Rightarrow> Crashed p
      | Inr helpMsg \<Rightarrow>
          Finished [\<lparr>Room = Room msg, FromUserID = [], FromUserName = [],
                     ToUserID = FromUserID msg, ToUserName = FromUserName msg,
                     Message = helpMsg, Direct = False\<rparr>])"

text \<open>
  The loop of the rule task over the rules still to visit; \<open>out\<close> holds the messages
  already sent. A panic of \<^verbatim>\<open>ParseMessage\<close> leaves the loop and reaches the deferred
  function, which recovers and logs it.
\<close>

fun ruleLoop ::
  "('r, 'b) RuleParser \<Rightarrow> ('r, 'b) Self \<Rightarrow> Message \<Rightarrow> 'r list \<Rightarrow> Message list \<Rightarrow> outcome" where
  "ruleLoop R self msg [] out = Finished out"
| "ruleLoop R self msg (rule # rs) out =
     (case ParseMessage R rule self msg of
        Inl p \<Rightarrow> Recovered out p
      | Inr responses \<Rightarrow> ruleLoop R self msg rs (out @ responses))"

definition ruleTask ::
  "('r, 'b) RuleParser \<Rightarrow> ('r, 'b) Self \<Rightarrow> ('r, 'b) Self \<Rightarrow> Message \<Rightarrow> outcome" where
  "ruleTask R s self msg = ruleLoop R self msg (rules s) []"

subsection \<open>Process\<close>

definition isHelp :: "('r, 'b) Self \<Rightarrow> Message \<Rightarrow> bool" where
  "isHelp s inp = prefix (Name s @ '' help'') (Message inp)"

text \<open>
  The loop \<^verbatim>\<open>for in := range s.providerIn\<close>, on the messages that arrive. Each message
  gets its own goroutine; the model lists the outcomes of the goroutines in the order
  in which they were started, so the sends of two tasks are kept apart and no order
  between them is fixed. An unrecovered panic ends the process: no later message is
  taken from the channel.
\<close>

fun mainLoop ::
  "('r, 'b) RuleParser \<Rightarrow> ('r, 'b) Self \<Rightarrow> Message list \<Rightarrow> outcome list" where
  "mainLoop R s [] = []"
| "mainLoop R s (inp # ins) =
     (let t = (if isHelp s inp then helpTask R s s inp else ruleTask R s s inp)
      in if crashed t then [t] else t # mainLoop R s ins)"

text \<open>
  The state of the program that \<^verbatim>\<open>Process\<close> touches: the package variable
  \<^verbatim>\<open>processOnce\<close> (true once its \<^verbatim>\<open>Do\<close> has run a function), the bots by their address,
  and for every call of \<^verbatim>\<open>Process\<close> so far the address it was called on with the
  outcomes of the loop it ran, or \<open>None\<close> when \<^verbatim>\<open>Do\<close> ran nothing.
\<close>

record ('r, 'b) program =
  processOnce :: bool
  bots :: "nat \<Rightarrow> ('r, 'b) Self"
  calls :: "(nat \<times> outcome list option) list"

text \<open>
  \<^verbatim>\<open>func (s *Self) Process()\<close> on the bot at address \<open>a\<close>, when \<open>ins\<close> is what arrives
  on its \<^verbatim>\<open>providerIn\<close>.
\<close>

definition Process ::
  "('r, 'b) RuleParser \<Rightarrow> ('r, 'b) program \<Rightarrow> nat \<Rightarrow> Message list \<Rightarrow> ('r, 'b) program" where
  "Process R w a ins =
     (if processOnce w then w\<lparr>calls := calls w @ [(a, None)]\<rparr>
      else w\<lparr>processOnce := True,
             calls := calls w @ [(a, Some (mainLoop R (bots w a) ins))]\<rparr>)"

text \<open>Calls of \<^verbatim>\<open>Process\<close> one after the other, each with its bot and its input.\<close>

fun ProcessCalls ::
  "('r, 'b) RuleParser \<Rightarrow> ('r, 'b) program \<Rightarrow> (nat \<times> Message list) list \<Rightarrow> ('r, 'b) program" where
  "ProcessCalls R w [] = w"
| "ProcessCalls R w ((a, ins) # cs) = ProcessCalls R (Process R w a ins) cs"

section \<open>Package providers: the Slack connection\<close>

subsection \<open>State and environment\<close>

text \<open>A Go \<^verbatim>\<open>error\<close> that is not nil; \<^verbatim>\<open>nil\<close> is \<open>None\<close> of \<open>error option\<close>.\<close>

datatype error = Error string

text \<open>
  \<^verbatim>\<open>providerSlack\<close>. \<open>wsConn\<close> is the pointer to the socket (\<open>None\<close> is nil, a socket is
  named by a number), \<open>err\<close> the sticky error, \<open>usernames\<close> the cache. The mutexes guard
  single reads and writes and have no state of their own in a sequential run; the
  channels \<^verbatim>\<open>in\<close> and \<^verbatim>\<open>out\<close> are the lists of messages the loops produce and consume.
\<close>

record providerSlack =
  token :: string
  wsURL :: string
  selfID :: string
  wsConn :: "nat option"
  err :: "error option"
  usernames :: "string \<rightharpoonup> string"

text \<open>
  What the network answers to one \<^verbatim>\<open>http.Get\<close> followed by one JSON \<^verbatim>\<open>Decode\<close>:
  \<^verbatim>\<open>http.Get\<close> returns an error, or the body does not decode into the expected
  structure, or it decodes into \<open>data\<close>.
\<close>

datatype 'a response = GetError error | DecodeError error | Decoded 'a

text \<open>A decoded \<^verbatim>\<open>interface{}\<close> as the type switch of \<^verbatim>\<open>handshake\<close> sees it.\<close>

datatype dynamic = IsBool bool | NotBool

text \<open>The anonymous structure that \<^verbatim>\<open>handshake\<close> decodes into.\<close>

record handshakeData =
  OK :: dynamic
  URL :: string
  SelfID :: string

text \<open>The anonymous structure that \<^verbatim>\<open>getUserName\<close> decodes into.\<close>

record userData =
  UserOK :: dynamic
  UserName :: string

text \<open>What \<^verbatim>\<open>websocket.Dial\<close> returns.\<close>

datatype dialed = DialError error | Conn nat

subsection \<open>handshake and dial\<close>

text \<open>
  \<^verbatim>\<open>handshake\<close>. The variable \<^verbatim>\<open>err\<close> of \<^verbatim>\<open>resp, err := http.Get(...)\<close> is nil once the first
  test \<^verbatim>\<open>if err != nil\<close> is passed. The \<^verbatim>\<open>err\<close> of \<^verbatim>\<open>if err := ...Decode(&data); err != nil\<close>
  lives in that statement only, so the two assignments \<^verbatim>\<open>p.err = err\<close> of the type
  switch store the variable of \<^verbatim>\<open>http.Get\<close>: here \<open>getErr\<close>.
\<close>

definition handshake :: "providerSlack \<Rightarrow> handshakeData response \<Rightarrow> providerSlack" where
  "handshake p resp =
     (case resp of
        GetError e \<Rightarrow> p\<lparr>err := Some e\<rparr>
      | DecodeError e \<Rightarrow> p\<lparr>err := Some e\<rparr>
      | Decoded data \<Rightarrow>
          (let getErr = None in
           case OK data of
             IsBool v \<Rightarrow>
               if \<not> v then p\<lparr>err := getErr\<rparr>
               else p\<lparr>wsURL := URL data, selfID := SelfID data\<rparr>
           | NotBool \<Rightarrow> p\<lparr>err := getErr\<rparr>))"

text \<open>The text of \<^verbatim>\<open>%v\<close> for an error: its message, or \<^verbatim>\<open><nil>\<close>.\<close>

definition showError :: "error option \<Rightarrow> string" where
  "showError e = (case e of None \<Rightarrow> ''<nil>'' | Some (Error m) \<Rightarrow> m)"

definition slackEnvVarName :: string where
  "slackEnvVarName = ''GOCHATBOT_SLACK_TOKEN''"

text \<open>\<^verbatim>\<open>dial\<close>; \<open>d\<close> is what \<^verbatim>\<open>websocket.Dial\<close> returns if it is called.\<close>

definition dial :: "providerSlack \<Rightarrow> dialed \<Rightarrow> providerSlack" where
  "dial p d =
     (if wsURL p = [] then
        p\<lparr>err := Some (Error
          (''could not connnect to Slack HTTP WS rtm. please, check your connection and your token (''
            @ slackEnvVarName @ ''). error: '' @ showError (err p)))\<rparr>
      else
        (case d of
           DialError e \<Rightarrow> p\<lparr>err := Some e\<rparr>
         | Conn ws \<Rightarrow> p\<lparr>wsConn := Some ws\<rparr>))"

subsection \<open>Construction and the reconnect loop\<close>

text \<open>
  \<^verbatim>\<open>Slack(token)\<close>: the connection after \<^verbatim>\<open>handshake\<close> and \<^verbatim>\<open>dial\<close>, and whether the
  intake and dispatch loops are started (\<^verbatim>\<open>if slack.err == nil\<close>). \<^verbatim>\<open>reconnect\<close> is
  started in both cases.
\<close>

definition Slack :: "string \<Rightarrow> handshakeData response \<Rightarrow> dialed \<Rightarrow> providerSlack \<times> bool" where
  "Slack tok resp d =
     (let slack = \<lparr>token = tok, wsURL = [], selfID = [], wsConn = None, err = None,
                    usernames = Map.empty\<rparr>;
          slack = handshake slack resp;
          slack = dial slack d
      in (slack, err slack = None))"

text \<open>
  One round of \<^verbatim>\<open>reconnect\<close> after its sleep, as the network decides it: the write of
  the hello frame succeeds, or it fails and \<^verbatim>\<open>handshake\<close> and \<^verbatim>\<open>dial\<close> get these answers.
\<close>

datatype tick = WriteOK | WriteFailed "handshakeData response" dialed

text \<open>What \<^verbatim>\<open>reconnect\<close> did: the calls it made, and whether it left its loop.\<close>

datatype action = Handshake | Dial

datatype supervisor = Supervising | Stopped

text \<open>
  \<^verbatim>\<open>reconnect\<close> on the rounds the network allows; \<open>acts\<close> holds the calls made so far.
  The loop has no exit but the \<^verbatim>\<open>break\<close> on a nil socket.
\<close>

fun reconnect ::
  "providerSlack \<Rightarrow> tick list \<Rightarrow> action list \<Rightarrow> providerSlack \<times> supervisor \<times> action list" where
  "reconnect p [] acts = (p, Supervising, acts)"
| "reconnect p (t # ts) acts =
     (case wsConn p of
        None \<Rightarrow> (p, Stopped, acts)
      | Some ws \<Rightarrow>
          (case t of
             WriteOK \<Rightarrow> reconnect p ts acts
           | WriteFailed resp d \<Rightarrow>
               reconnect (dial (handshake p resp) d) ts (acts @ [Handshake, Dial])))"

subsection \<open>getUserName and the intake loop\<close>

text \<open>
  \<^verbatim>\<open>getUserName\<close>. \<open>net k\<close> is the answer to the \<open>k\<close>-th lookup request of the run, and
  \<open>reqs\<close> lists the user ids requested so far, so a call that returns \<open>reqs\<close> as it
  got it made no request. \<^verbatim>\<open>return p.usernames[id]\<close> reads the map again; a key that
  is absent reads as the empty string.
\<close>

definition getUserName ::
  "(nat \<Rightarrow> userData response) \<Rightarrow> providerSlack \<Rightarrow> string \<Rightarrow> string list
     \<Rightarrow> string \<times> providerSlack \<times> string list" where
  "getUserName net p uid reqs =
     (case usernames p uid of
        Some uname \<Rightarrow> (uname, p, reqs)
      | None \<Rightarrow>
          (case net (length reqs) of
             GetError e \<Rightarrow> ([], p, reqs @ [uid])
           | DecodeError e \<Rightarrow> ([], p, reqs @ [uid])
           | Decoded data \<Rightarrow>
               (let p' = p\<lparr>usernames := (usernames p)(uid \<mapsto> UserName data)\<rparr>
                in (case usernames p' uid of None \<Rightarrow> [] | Some uname \<Rightarrow> uname,
                    p', reqs @ [uid]))))"

text \<open>The anonymous structure that \<^verbatim>\<open>intakeLoop\<close> decodes a frame into.\<close>

record inData =
  Type :: string
  Channel :: string
  UserID :: string
  Text :: string

text \<open>
  One round of \<^verbatim>\<open>intakeLoop\<close>: \<open>rd\<close> is \<open>None\<close> when \<^verbatim>\<open>Decode\<close> fails, the decoded frame
  otherwise. The round hands a message to the channel \<^verbatim>\<open>in\<close> or nothing.
\<close>

definition intakeStep ::
  "(nat \<Rightarrow> userData response) \<Rightarrow> providerSlack \<Rightarrow> inData option \<Rightarrow> string list
     \<Rightarrow> Message option \<times> providerSlack \<times> string list" where
  "intakeStep net p rd reqs =
     (case rd of
        None \<Rightarrow> (None, p, reqs)
      | Some data \<Rightarrow>
          if Type data \<noteq> ''message'' then (None, p, reqs)
          else
            (case getUserName net p (UserID data) reqs of
               (uname, p', reqs') \<Rightarrow>
                 (Some \<lparr>Room = Channel data, FromUserID = UserID data,
                        FromUserName = uname, ToUserID = [], ToUserName = [],
                        Message = Text data, Direct = prefix ''D'' (Channel data)\<rparr>,
                  p', reqs')))"

fun intakeLoop ::
  "(nat \<Rightarrow> userData response) \<Rightarrow> providerSlack \<Rightarrow> inData option list \<Rightarrow> string list
     \<Rightarrow> Message list \<times> providerSlack \<times> string list" where
  "intakeLoop net p [] reqs = ([], p, reqs)"
| "intakeLoop net p (rd # rds) reqs =
     (case intakeStep net p rd reqs of
        (m, p', reqs') \<Rightarrow>
          (case intakeLoop net p' rds reqs' of
             (ms, p'', reqs'') \<Rightarrow>
               ((case m of None \<Rightarrow> ms | Some msg \<Rightarrow> msg # ms), p'', reqs'')))"

subsection \<open>The dispatch loop\<close>

text \<open>The anonymous structure that \<^verbatim>\<open>dispatchLoop\<close> encodes.\<close>

record outData =
  outType :: string
  outUser :: string
  outChannel :: string
  outText :: string

text \<open>
  The calls of \<^verbatim>\<open>dispatchLoop\<close> into Go's library are parameters of the model:
  \<^item> \<open>tmplExecute text user\<close> is \<^verbatim>\<open>template.Must(template.New("tmpl").Parse(text))\<close>
    followed by \<^verbatim>\<open>Execute\<close> on \<^verbatim>\<open>struct{ User string }{user}\<close>: \<open>None\<close> when \<^verbatim>\<open>Parse\<close>
    fails, so that \<^verbatim>\<open>Must\<close> panics, otherwise what \<^verbatim>\<open>Execute\<close> wrote to the buffer
    (its error is not looked at);
  \<^item> \<open>TrimSpace\<close> is \<^verbatim>\<open>strings.TrimSpace\<close>, \<open>UnescapeString\<close> is \<^verbatim>\<open>html.UnescapeString\<close>;
  \<^item> \<open>jsonMarshal\<close> is \<^verbatim>\<open>json.Marshal\<close>, \<open>None\<close> when it returns an error.
\<close>

record stdlib =
  tmplExecute :: "string \<Rightarrow> string \<Rightarrow> string option"
  TrimSpace :: "string \<Rightarrow> string"
  UnescapeString :: "string \<Rightarrow> string"
  jsonMarshal :: "outData \<Rightarrow> string option"

text \<open>
  What one round of \<^verbatim>\<open>dispatchLoop\<close> does with a message: \<^verbatim>\<open>fmt.Fprint(wsConn, wsMsg)\<close>
  on the socket read from \<^verbatim>\<open>p.wsConn\<close>, or \<^verbatim>\<open>continue\<close> with nothing written, or the
  panic of \<^verbatim>\<open>template.Must\<close>, which nothing recovers.
\<close>

datatype dispatched = Written "nat option" string | Dropped | MustPanic

definition dispatchStep :: "stdlib \<Rightarrow> providerSlack \<Rightarrow> Message \<Rightarrow> dispatched" where
  "dispatchStep L p msg =
     (case tmplExecute L (Message msg) (''<@'' @ ToUserID msg @ ''>'') of
        None \<Rightarrow> MustPanic
      | Some finalMsg \<Rightarrow>
          if TrimSpace L finalMsg = [] then Dropped
          else
            (case jsonMarshal L \<lparr>outType = ''message'', outUser = selfID p,
                                  outChannel = Room msg,
                                  outText = UnescapeString L finalMsg\<rparr> of
               None \<Rightarrow> Dropped
             | Some wsMsg \<Rightarrow>
                 if length wsMsg > 16 * 1024 then Dropped
                 else Written (wsConn p) wsMsg))"

fun dispatchLoop :: "stdlib \<Rightarrow> providerSlack \<Rightarrow> Message list \<Rightarrow> dispatched list" where
  "dispatchLoop L p [] = []"
| "dispatchLoop L p (msg # msgs) =
     (case dispatchStep L p msg of
        MustPanic \<Rightarrow> [MustPanic]
      | d \<Rightarrow> d # dispatchLoop L p msgs)"

section \<open>Instances for the examples\<close>

subsection \<open>A rule set\<close>

text \<open>
  Two rules: \<open>Echo\<close> answers every message with its text, addressed to the sender, and
  has the help text of the specification's example; \<open>Boom\<close> panics on every message.
\<close>

datatype exampleRule = Echo | Boom

definition exampleRules :: "(exampleRule, unit) RuleParser" where
  "exampleRules =
     \<lparr>ParseMessage = (\<lambda>rule self msg.
        case rule of
          Echo \<Rightarrow> Inr [\<lparr>Room = Room msg, FromUserID = [], FromUserName = [],
                          ToUserID = FromUserID msg, ToUserName = FromUserName msg,
                          Message = Message msg, Direct = False\<rparr>]
        | Boom \<Rightarrow> Inl (Panic ''boom'')),
      HelpMessage = (\<lambda>rule self.
        case rule of
          Echo \<Rightarrow> Inr ''echo: repeats your message''
        | Boom \<Rightarrow> Inr ''boom: panics'')\<rparr>"

definition bender :: "exampleRule list \<Rightarrow> (exampleRule, unit) Self" where
  "bender rs = \<lparr>name = ''bender'', rules = rs, brain = ()\<rparr>"

definition fromAlice :: "string \<Rightarrow> Message" where
  "fromAlice txt =
     \<lparr>Room = ''C1'', FromUserID = ''U1'', FromUserName = ''alice'', ToUserID = [],
      ToUserName = [], Message = txt, Direct = False\<rparr>"

definition toAlice :: "string \<Rightarrow> Message" where
  "toAlice txt =
     \<lparr>Room = ''C1'', FromUserID = [], FromUserName = [], ToUserID = ''U1'',
      ToUserName = ''alice'', Message = txt, Direct = False\<rparr>"

text \<open>A program in which \<^verbatim>\<open>Process\<close> was never called; every address holds a bot.\<close>

definition program0 :: "(exampleRule, unit) program" where
  "program0 = \<lparr>processOnce = False, bots = (\<lambda>a. bender [Echo]), calls = []\<rparr>"

subsection \<open>Go's library on a fragment of ASCII text\<close>

text \<open>
  Values of the four library calls of \<^verbatim>\<open>dispatchLoop\<close>, for evaluating it on concrete
  messages. Each function is Go's on the texts named with it and is not meant beyond
  them.
\<close>

text \<open>
  \<^verbatim>\<open>strings.TrimSpace\<close> on ASCII text: it cuts leading and trailing tab, line feed,
  vertical tab, form feed, carriage return and space.
\<close>

definition asciiSpace :: "char \<Rightarrow> bool" where
  "asciiSpace c = (c \<in> set [CHR 0x09, CHR 0x0A, CHR 0x0B, CHR 0x0C, CHR 0x0D, CHR 0x20])"

definition trimSpace :: "string \<Rightarrow> string" where
  "trimSpace s = rev (dropWhile asciiSpace (rev (dropWhile asciiSpace s)))"

text \<open>
  The escaping that \<^verbatim>\<open>html/template\<close> applies to the value of an action in HTML text.
\<close>

definition htmlEscapeChar :: "char \<Rightarrow> string" where
  "htmlEscapeChar c =
     (if c = CHR 0x00 then [CHR 0xEF, CHR 0xBF, CHR 0xBD]
      else if c = CHR 0x22 then ''&#34;''
      else if c = CHR ''&'' then ''&amp;''
      else if c = CHR 0x27 then ''&#39;''
      else if c = CHR ''+'' then ''&#43;''
      else if c = CHR ''<'' then ''&lt;''
      else if c = CHR ''>'' then ''&gt;''
      else [c])"

text \<open>
  \<^verbatim>\<open>html/template\<close> on a text without \<^verbatim>\<open><\<close> whose only action is \<^verbatim>\<open>{{.User}}\<close>: the text
  is copied and each action replaced by the escaped \<open>user\<close>. Every other text with
  \<^verbatim>\<open>{{\<close> or \<^verbatim>\<open><\<close> is outside the fragment and gets \<open>None\<close>.
\<close>

fun execute :: "string \<Rightarrow> string \<Rightarrow> string option" where
  "execute [] user = Some []"
| "execute (c # cs) user =
     (if prefix ''{{.User}}'' (c # cs) then
        map_option ((@) (concat (map htmlEscapeChar user))) (execute (drop 8 cs) user)
      else if prefix ''{{'' (c # cs) \<or> c = CHR ''<'' then None
      else map_option ((#) c) (execute cs user))"

text \<open>
  \<^verbatim>\<open>html.UnescapeString\<close> on a text whose character references are \<^verbatim>\<open>&lt;\<close>, \<^verbatim>\<open>&gt;\<close>,
  \<^verbatim>\<open>&amp;\<close> and the decimal \<^verbatim>\<open>&#N;\<close> with \<open>0 < N < 128\<close>; an ampersand that starts
  none of them is copied.
\<close>

definition isDigit :: "char \<Rightarrow> bool" where
  "isDigit c = (48 \<le> (of_char c :: nat) \<and> (of_char c :: nat) \<le> 57)"

definition decimal :: "string \<Rightarrow> nat" where
  "decimal ds = foldl (\<lambda>n c. 10 * n + (of_char c - 48)) 0 ds"

function unescape :: "string \<Rightarrow> string" where
  "unescape [] = []"
| "unescape (c # cs) =
     (if prefix ''&lt;'' (c # cs) then CHR ''<'' # unescape (drop 3 cs)
      else if prefix ''&gt;'' (c # cs) then CHR ''>'' # unescape (drop 3 cs)
      else if prefix ''&amp;'' (c # cs) then CHR ''&'' # unescape (drop 4 cs)
      else if prefix ''&#'' (c # cs) \<and> takeWhile isDigit (tl cs) \<noteq> []
              \<and> prefix '';'' (dropWhile isDigit (tl cs))
              \<and> 0 < decimal (takeWhile isDigit (tl cs))
              \<and> decimal (takeWhile isDigit (tl cs)) < 128 then
        char_of (decimal (takeWhile isDigit (tl cs)))
          # unescape (tl (dropWhile isDigit (tl cs)))
      else c # unescape cs)"
  by pat_completeness auto
termination
proof (relation "measure length")
  fix c :: char and cs :: string
  have "length (dropWhile isDigit (tl cs)) \<le> length cs"
    by (metis length_dropWhile_le length_tl le_trans diff_le_self)
  then show "(tl (dropWhile isDigit (tl cs)), c # cs) \<in> measure length"
    by simp
qed simp_all

text \<open>
  \<^verbatim>\<open>json.Marshal\<close> of the frame on ASCII text: the four fields in the order of their
  declaration under their tags, each string quoted, with quote and backslash
  escaped by a backslash, line feed, carriage return and tab written \<^verbatim>\<open>\n\<close>, \<^verbatim>\<open>\r\<close>,
  \<^verbatim>\<open>\t\<close>, and the other control characters and \<^verbatim>\<open><\<close>, \<^verbatim>\<open>>\<close>, \<^verbatim>\<open>&\<close> written
  \<^verbatim>\<open>\u00XX\<close>.
\<close>

definition hexDigit :: "nat \<Rightarrow> char" where
  "hexDigit n = ''0123456789abcdef'' ! n"

definition jsonChar :: "char \<Rightarrow> string" where
  "jsonChar c =
     (if c = CHR 0x22 then [CHR 0x5C, CHR 0x22]
      else if c = CHR 0x5C then [CHR 0x5C, CHR 0x5C]
      else if c = CHR 0x0A then [CHR 0x5C, CHR ''n'']
      else if c = CHR 0x0D then [CHR 0x5C, CHR ''r'']
      else if c = CHR 0x09 then [CHR 0x5C, CHR ''t'']
      else if (of_char c :: nat) < 32 \<or> c \<in> set ''<>&'' then
        CHR 0x5C # ''u00'' @ [hexDigit (of_char c div 16), hexDigit (of_char c mod 16)]
      else [c])"

definition jsonString :: "string \<Rightarrow> string" where
  "jsonString s = CHR 0x22 # concat (map jsonChar s) @ [CHR 0x22]"

definition marshal :: "outData \<Rightarrow> string option" where
  "marshal d =
     Some (''{'' @ jsonString ''type'' @ '':'' @ jsonString (outType d)
           @ '','' @ jsonString ''user'' @ '':'' @ jsonString (outUser d)
           @ '','' @ jsonString ''channel'' @ '':'' @ jsonString (outChannel d)
           @ '','' @ jsonString ''text'' @ '':'' @ jsonString (outText d) @ ''}'')"

definition asciilib :: stdlib where
  "asciilib = \<lparr>tmplExecute = execute, TrimSpace = trimSpace,
                UnescapeString = unescape, jsonMarshal = marshal\<rparr>"

text \<open>A connection after a handshake that gave the bot the id \<open>B0\<close> and a dial.\<close>

definition connected :: providerSlack where
  "connected = \<lparr>token = ''xoxb'', wsURL = ''wss://example/rtm'', selfID = ''B0'',
                 wsConn = Some 1, err = None, usernames = Map.empty\<rparr>"

text \<open>Answers of the network: a handshake that succeeds, lookups that do or do not.\<close>

definition okHandshake :: "handshakeData response" where
  "okHandshake = Decoded \<lparr>OK = IsBool True, URL = ''wss://example/rtm'', SelfID = ''B0''\<rparr>"

definition alwaysAlice :: "nat \<Rightarrow> userData response" where
  "alwaysAlice k = Decoded \<lparr>UserOK = IsBool True, UserName = ''alice''\<rparr>"

definition alwaysTimeout :: "nat \<Rightarrow> userData response" where
  "alwaysTimeout k = GetError (Error ''timeout'')"

definition frameFrom :: "string \<Rightarrow> string \<Rightarrow> inData" where
  "frameFrom ch u = \<lparr>Type = ''message'', Channel = ch, UserID = u, Text = ''hi''\<rparr>"

section \<open>Lemmas on the loops\<close>

lemma helpLoop_returns:
  "(\<And>r. r \<in> set rs \<Longrightarrow> HelpMessage R r self = Inr (h r)) \<Longrightarrow>
   helpLoop R self rs acc = Inr (acc @ concat (map (\<lambda>r. CHR 0x20 # h r @ [CHR 0x0A]) rs))"
  by (induction rs arbitrary: acc) simp_all

lemma ruleLoop_returns:
  "(\<And>r. r \<in> set rs \<Longrightarrow> ParseMessage R r self m = Inr (f r)) \<Longrightarrow>
   ruleLoop R self m rs out = Finished (out @ concat (map f rs))"
  by (induction rs arbitrary: out) simp_all

lemma ruleLoop_panics:
  "(\<And>x. x \<in> set rs1 \<Longrightarrow> ParseMessage R x self m = Inr (f x)) \<Longrightarrow>
   ParseMessage R r self m = Inl p \<Longrightarrow>
   ruleLoop R self m (rs1 @ r # rs2) out = Recovered (out @ concat (map f rs1)) p"
  by (induction rs1 arbitrary: out) simp_all

lemma ruleLoop_not_crashed: "\<not> crashed (ruleLoop R self m rs out)"
  by (induction rs arbitrary: out) (simp_all split: sum.splits)

lemma mainLoop_append:
  "\<not> list_ex crashed (mainLoop R s xs) \<Longrightarrow>
   mainLoop R s (xs @ ys) = mainLoop R s xs @ mainLoop R s ys"
  by (induction xs) (simp_all add: Let_def split: if_splits)

lemma mainLoop_rule:
  "\<not> isHelp s m \<Longrightarrow> mainLoop R s (m # ms) = ruleTask R s s m # mainLoop R s ms"
  by (simp add: ruleTask_def ruleLoop_not_crashed)

lemma ProcessCalls_once:
  "processOnce w \<Longrightarrow>
   ProcessCalls R w cs = w\<lparr>calls := calls w @ map (\<lambda>c. (fst c, None)) cs\<rparr>"
  by (induction cs arbitrary: w) (auto simp: Process_def)

lemma Process_bots: "bots (Process R w a ins) = bots w"
  by (simp add: Process_def)

lemma dispatchLoop_append:
  "MustPanic \<notin> set (dispatchLoop L p xs) \<Longrightarrow>
   dispatchLoop L p (xs @ ys) = dispatchLoop L p xs @ dispatchLoop L p ys"
  by (induction xs) (auto split: dispatched.splits)

lemma handshake_failed_response:
  "err (handshake p (GetError e)) = Some e \<and> err (handshake p (DecodeError e)) = Some e"
  by (simp add: handshake_def)

lemma Slack_err_no_socket:
  "err (fst (Slack tok resp d)) \<noteq> None \<Longrightarrow> wsConn (fst (Slack tok resp d)) = None"
  by (auto simp: Slack_def handshake_def dial_def Let_def
      split: response.splits dynamic.splits dialed.splits if_splits)

text \<open>
  While every lookup succeeds, the ids requested so far are all in the cache and no
  id was requested twice.
\<close>

lemma getUserName_inv:
  assumes "\<forall>k. \<exists>d. net k = Decoded d"
    and "getUserName net p uid reqs = (nm, p', reqs')"
    and "set reqs \<subseteq> dom (usernames p)" and "distinct reqs"
  shows "set reqs' \<subseteq> dom (usernames p') \<and> distinct reqs'"
proof (cases "usernames p uid")
  case None
  obtain d where "net (length reqs) = Decoded d" using assms(1) by blast
  with None assms(2-4) show ?thesis
    by (auto simp: getUserName_def Let_def)
next
  case (Some a)
  with assms(2-4) show ?thesis by (auto simp: getUserName_def)
qed

lemma intakeStep_inv:
  assumes "\<forall>k. \<exists>d. net k = Decoded d"
    and "intakeStep net p rd reqs = (m, p', reqs')"
    and "set reqs \<subseteq> dom (usernames p)" and "distinct reqs"
  shows "set reqs' \<subseteq> dom (usernames p') \<and> distinct reqs'"
  using assms getUserName_inv [OF assms(1)]
  by (auto simp: intakeStep_def split: option.splits if_splits prod.splits)

lemma intakeLoop_inv:
  assumes "\<forall>k. \<exists>d. net k = Decoded d"
  shows "intakeLoop net p rds reqs = (ms, p', reqs') \<Longrightarrow>
    set reqs \<subseteq> dom (usernames p) \<Longrightarrow> distinct reqs \<Longrightarrow>
    set reqs' \<subseteq> dom (usernames p') \<and> distinct reqs'"
proof (induction rds arbitrary: p reqs ms p' reqs')
  case Nil
  then show ?case by simp
next
  case (Cons rd rds)
  obtain m p1 reqs1 where step: "intakeStep net p rd reqs = (m, p1, reqs1)"
    by (cases "intakeStep net p rd reqs") auto
  obtain ms2 p2 reqs2 where rest: "intakeLoop net p1 rds reqs1 = (ms2, p2, reqs2)"
    by (cases "intakeLoop net p1 rds reqs1") auto
  from Cons.prems(1) step rest have eq: "p' = p2" "reqs' = reqs2" by auto
  from intakeStep_inv [OF assms step Cons.prems(2,3)]
  have "set reqs1 \<subseteq> dom (usernames p1)" "distinct reqs1" by auto
  from Cons.IH [OF rest this] eq show ?case by simp
qed






section \<open>The claims\<close>

subsection \<open>C1: the help reply\<close>

text \<open>
  C1, as the code has it. For an inbound message \<open>m\<close> whose text starts with the bot's
  name followed by \<^verbatim>\<open> help\<close>, when every rule's \<^verbatim>\<open>HelpMessage\<close> returns its text \<open>h r\<close>,
  the task of \<open>m\<close> sends exactly one message. Its text is the line
  \<^verbatim>\<open>available commands:\<close> followed, for each rule in the order of registration, by a
  space, the help text of the rule and a newline; it goes to the sender of \<open>m\<close>
  (\<^verbatim>\<open>ToUserID\<close>, \<^verbatim>\<open>ToUserName\<close>) in the room of \<open>m\<close>. No \<^verbatim>\<open>ParseMessage\<close> is evaluated: the
  outcome is the same under any other \<^verbatim>\<open>ParseMessage\<close>.
\<close>

theorem help_reply:
  assumes "isHelp s m"
    and "\<And>r. r \<in> set (rules s) \<Longrightarrow> HelpMessage R r s = Inr (h r)"
    and "\<not> list_ex crashed (mainLoop R s before)"
  shows "mainLoop R s (before @ m # after) =
           mainLoop R s before
           @ Finished [\<lparr>Room = Room m, FromUserID = [], FromUserName = [],
                        ToUserID = FromUserID m, ToUserName = FromUserName m,
                        Message = ''available commands:'' @ CHR 0x0A
                          # concat (map (\<lambda>r. CHR 0x20 # h r @ [CHR 0x0A]) (rules s)),
                        Direct = False\<rparr>]
           # mainLoop R s after
         \<and> mainLoop (R\<lparr>ParseMessage := P\<rparr>) s [m] = mainLoop R s [m]"
proof -
  have "helpTask R s s m =
          Finished [\<lparr>Room = Room m, FromUserID = [], FromUserName = [],
                     ToUserID = FromUserID m, ToUserName = FromUserName m,
                     Message = ''available commands:'' @ CHR 0x0A
                       # concat (map (\<lambda>r. CHR 0x20 # h r @ [CHR 0x0A]) (rules s)),
                     Direct = False\<rparr>]"
    using assms(2) by (simp add: helpTask_def helpLoop_returns)
  moreover have "helpTask (R\<lparr>ParseMessage := P\<rparr>) s s m = helpTask R s s m"
    using assms(2) by (simp add: helpTask_def helpLoop_returns [where h = h])
  ultimately show ?thesis
    using assms(1,3) by (simp add: mainLoop_append)
qed

text \<open>
  The theorem at the example of the specification: the bot \<open>bender\<close> with the one rule
  \<open>Echo\<close>, and the message \<^verbatim>\<open>bender help\<close> from \<open>alice\<close>.
\<close>

theorem help_reply_witness:
  "isHelp (bender [Echo]) (fromAlice ''bender help'')
   \<and> map (\<lambda>r. HelpMessage exampleRules r (bender [Echo])) (rules (bender [Echo]))
       = [Inr ''echo: repeats your message'']
   \<and> mainLoop exampleRules (bender [Echo]) [fromAlice ''bender help'']
       = [Finished [toAlice ''available commands:\<newline> echo: repeats your message\<newline>'']]"
proof -
  have a: "isHelp (bender [Echo]) (fromAlice ''bender help'')"
    by (simp add: isHelp_def Name_def bender_def fromAlice_def)
  have b: "\<And>r. r \<in> set (rules (bender [Echo])) \<Longrightarrow>
      HelpMessage exampleRules r (bender [Echo]) = Inr ((\<lambda>r. ''echo: repeats your message'') r)"
    by (simp add: bender_def exampleRules_def)
  have c: "\<not> list_ex crashed (mainLoop exampleRules (bender [Echo]) [])"
    by simp
  from help_reply [OF a b c, of "[]" "ParseMessage exampleRules"] b show ?thesis
    using a by (simp add: bender_def fromAlice_def toAlice_def)
qed

text \<open>
  C1 as stated fails at that example: the text sent has a space in front of the help
  text, which \<^verbatim>\<open>fmt.Sprintln\<close> puts between its two operands, so it is not the text
  \<^verbatim>\<open>"available commands:\necho: repeats your message\n"\<close> of the specification.
\<close>

theorem help_reply_counterexample:
  "map (\<lambda>m. (Room m, ToUserID m, ToUserName m, Message m))
     (concat (map sent (mainLoop exampleRules (bender [Echo]) [fromAlice ''bender help''])))
   = [(''C1'', ''U1'', ''alice'', ''available commands:\<newline> echo: repeats your message\<newline>'')]
   \<and> map (\<lambda>m. (Room m, ToUserID m, ToUserName m, Message m))
     (concat (map sent (mainLoop exampleRules (bender [Echo]) [fromAlice ''bender help''])))
   \<noteq> [(''C1'', ''U1'', ''alice'', ''available commands:\<newline>echo: repeats your message\<newline>'')]"
  by (simp add: isHelp_def Name_def bender_def fromAlice_def helpTask_def exampleRules_def)

subsection \<open>C2: the replies of the rules\<close>

text \<open>
  C2. For an inbound message \<open>m\<close> that is not a help request, when every rule's
  \<^verbatim>\<open>ParseMessage(self, m)\<close> returns its result \<open>f r\<close>, the messages that the task of \<open>m\<close>
  sends are the results of the rules, concatenated in the order of registration, each
  result in its own order. This holds wherever \<open>m\<close> stands among the inbound messages,
  as long as the process is alive when \<open>m\<close> arrives.
\<close>

theorem rule_replies:
  assumes "\<not> isHelp s m"
    and "\<And>r. r \<in> set (rules s) \<Longrightarrow> ParseMessage R r s m = Inr (f r)"
    and "\<not> list_ex crashed (mainLoop R s before)"
  shows "mainLoop R s (before @ m # after) =
           mainLoop R s before @ Finished (concat (map f (rules s))) # mainLoop R s after"
  using assms by (simp add: mainLoop_append mainLoop_rule ruleTask_def ruleLoop_returns)

text \<open>The theorem for a bot with the rule \<open>Echo\<close> registered twice.\<close>

theorem rule_replies_witness:
  "\<not> isHelp (bender [Echo, Echo]) (fromAlice ''hi'')
   \<and> map (\<lambda>r. ParseMessage exampleRules r (bender [Echo, Echo]) (fromAlice ''hi''))
        (rules (bender [Echo, Echo])) = [Inr [toAlice ''hi''], Inr [toAlice ''hi'']]
   \<and> mainLoop exampleRules (bender [Echo, Echo]) [fromAlice ''hi'']
       = [Finished [toAlice ''hi'', toAlice ''hi'']]"
proof -
  have a: "\<not> isHelp (bender [Echo, Echo]) (fromAlice ''hi'')"
    by (simp add: isHelp_def Name_def bender_def fromAlice_def)
  have b: "\<And>r. r \<in> set (rules (bender [Echo, Echo])) \<Longrightarrow>
      ParseMessage exampleRules r (bender [Echo, Echo]) (fromAlice ''hi'')
        = Inr ((\<lambda>r. [toAlice ''hi'']) r)"
    by (simp add: bender_def exampleRules_def fromAlice_def toAlice_def)
  have c: "\<not> list_ex crashed (mainLoop exampleRules (bender [Echo, Echo]) [])"
    by simp
  from rule_replies [OF a b c, of "[]"] b show ?thesis
    using a by (simp add: bender_def)
qed

subsection \<open>C3: what the dispatch loop writes\<close>

text \<open>
  C3, as the code has it. For an outbound message that the dispatch loop reaches and
  whose text parses as a template, let \<open>finalMsg\<close> be what the template writes with
  the mention of \<^verbatim>\<open>ToUserID\<close> for \<^verbatim>\<open>User\<close>, and \<open>wsMsg\<close> the JSON encoding of the frame
  with the type \<^verbatim>\<open>message\<close>, the bot's own id as user, the room as channel and the
  HTML-unescaped \<open>finalMsg\<close> as text. Then \<open>wsMsg\<close> is written to the socket if and only
  if \<open>finalMsg\<close>, before it is unescaped, is not empty after trimming and \<open>wsMsg\<close> has at
  most 16384 bytes; otherwise nothing is written, and the loop goes on to the next
  message in both cases.
\<close>

theorem dispatch_written:
  assumes "tmplExecute L (Message msg) (''<@'' @ ToUserID msg @ ''>'') = Some finalMsg"
    and "jsonMarshal L \<lparr>outType = ''message'', outUser = selfID p, outChannel = Room msg,
                          outText = UnescapeString L finalMsg\<rparr> = Some wsMsg"
    and "MustPanic \<notin> set (dispatchLoop L p before)"
  shows "dispatchLoop L p (before @ msg # after) =
           dispatchLoop L p before
           @ (if TrimSpace L finalMsg \<noteq> [] \<and> length wsMsg \<le> 16384
              then Written (wsConn p) wsMsg else Dropped)
           # dispatchLoop L p after"
  using assms by (simp add: dispatchLoop_append dispatchStep_def)

text \<open>
  The theorem for a message with the placeholder, which is written, followed by a
  message of three spaces, which is dropped.
\<close>

theorem dispatch_written_witness:
  \<open>tmplExecute asciilib (Message (toAlice ''hi {{.User}}''))
       (''<@'' @ ToUserID (toAlice ''hi {{.User}}'') @ ''>'')
     = Some ''hi &lt;@U1&gt;''
   \<and> UnescapeString asciilib ''hi &lt;@U1&gt;'' = ''hi <@U1>''
   \<and> dispatchLoop asciilib connected [toAlice ''hi {{.User}}'', toAlice ''   '']
     = [Written (Some 1)
          (''{"type":"message","user":"B0","channel":"C1","text":"hi ''
             @ [CHR 0x5C] @ ''u003c@U1'' @ [CHR 0x5C] @ ''u003e"}''),
        Dropped]\<close>
proof -
  let ?m = "toAlice ''hi {{.User}}''"
  let ?w = \<open>''{"type":"message","user":"B0","channel":"C1","text":"hi ''
             @ [CHR 0x5C] @ ''u003c@U1'' @ [CHR 0x5C] @ ''u003e"}''\<close>
  have a: "tmplExecute asciilib (Message ?m) (''<@'' @ ToUserID ?m @ ''>'')
             = Some ''hi &lt;@U1&gt;''"
    by code_simp
  have u: "UnescapeString asciilib ''hi &lt;@U1&gt;'' = ''hi <@U1>''"
    by code_simp
  have b: "jsonMarshal asciilib \<lparr>outType = ''message'', outUser = selfID connected,
             outChannel = Room ?m, outText = UnescapeString asciilib ''hi &lt;@U1&gt;''\<rparr>
             = Some ?w"
    by code_simp
  have c: "MustPanic \<notin> set (dispatchLoop asciilib connected [])"
    by simp
  have t: "TrimSpace asciilib ''hi &lt;@U1&gt;'' \<noteq> []"
    by code_simp
  have l: "length ?w \<le> 16384"
    by simp
  have d: "dispatchLoop asciilib connected [toAlice ''   ''] = [Dropped]"
    by code_simp
  have w: "wsConn connected = Some 1"
    by (simp add: connected_def)
  from dispatch_written [OF a b c, of "[toAlice ''   '']"] a u show ?thesis
    by (simp only: t l d w) simp
qed

text \<open>
  C3 as stated fails for the text \<^verbatim>\<open>&#32;\<close>: the template writes it as it is, which is
  not empty after trimming, so the frame is written; its text, after unescaping, is
  one space, which is empty after trimming.
\<close>

theorem dispatch_counterexample:
  \<open>dispatchStep asciilib connected (toAlice ''&#32;'')
     = Written (Some 1) ''{"type":"message","user":"B0","channel":"C1","text":" "}''
   \<and> tmplExecute asciilib (Message (toAlice ''&#32;''))
        (''<@'' @ ToUserID (toAlice ''&#32;'') @ ''>'')
     = Some ''&#32;''
   \<and> TrimSpace asciilib (UnescapeString asciilib ''&#32;'') = []\<close>
  by code_simp

subsection \<open>C4: the cache of user names\<close>

text \<open>
  C4. \<^verbatim>\<open>getUserName\<close> on an id that is in the cache returns the cached name and makes
  no request. On an id that is not, it makes one request; if the lookup succeeds
  it stores and returns the name found, and the next call for the id returns it with
  no request; if \<^verbatim>\<open>http.Get\<close> or the decoding fails it returns the empty string and
  leaves the cache as it was, and the next call for the id makes a request again.
  While every lookup succeeds, no id is requested twice, whatever frames the intake
  loop reads.
\<close>

theorem getUserName_lookups:
  "(usernames hit uid = Some nm \<longrightarrow> getUserName net hit uid reqs = (nm, hit, reqs))
   \<and> (usernames miss uid = None \<longrightarrow> net (length reqs) = Decoded data \<longrightarrow>
        getUserName net miss uid reqs
          = (UserName data, miss\<lparr>usernames := (usernames miss)(uid \<mapsto> UserName data)\<rparr>,
             reqs @ [uid])
        \<and> getUserName net (miss\<lparr>usernames := (usernames miss)(uid \<mapsto> UserName data)\<rparr>)
            uid (reqs @ [uid])
          = (UserName data, miss\<lparr>usernames := (usernames miss)(uid \<mapsto> UserName data)\<rparr>,
             reqs @ [uid]))
   \<and> (usernames miss uid = None \<longrightarrow>
        (bad (length reqs) = GetError e \<or> bad (length reqs) = DecodeError e) \<longrightarrow>
        getUserName bad miss uid reqs = ([], miss, reqs @ [uid])
        \<and> snd (snd (getUserName bad miss uid (reqs @ [uid]))) = reqs @ [uid, uid])
   \<and> ((\<forall>k. \<exists>d. good k = Decoded d) \<longrightarrow>
        distinct (snd (snd (intakeLoop good p rds []))))"
proof (intro conjI impI)
  assume "\<forall>k. \<exists>d. good k = Decoded d"
  then show "distinct (snd (snd (intakeLoop good p rds [])))"
    using intakeLoop_inv [of good p rds "[]"] by (cases "intakeLoop good p rds []") auto
next
  assume "usernames miss uid = None"
    and "bad (length reqs) = GetError e \<or> bad (length reqs) = DecodeError e"
  then show "snd (snd (getUserName bad miss uid (reqs @ [uid]))) = reqs @ [uid, uid]"
    by (auto simp: getUserName_def Let_def split: response.splits)
qed (auto simp: getUserName_def Let_def)

text \<open>
  The theorem for the id \<open>U1\<close>: in the cache; not in the cache when the lookup finds
  \<open>alice\<close>; not in the cache when the lookup times out; and three frames from \<open>U1\<close>,
  \<open>U1\<close> and \<open>U2\<close> read by the intake loop.
\<close>

theorem getUserName_lookups_witness:
  "getUserName alwaysAlice (connected\<lparr>usernames := [''U1'' \<mapsto> ''alice'']\<rparr>) ''U1'' []
     = (''alice'', connected\<lparr>usernames := [''U1'' \<mapsto> ''alice'']\<rparr>, [])
   \<and> usernames connected ''U1'' = None
   \<and> getUserName alwaysAlice connected ''U1'' []
     = (''alice'', connected\<lparr>usernames := [''U1'' \<mapsto> ''alice'']\<rparr>, [''U1''])
   \<and> getUserName alwaysAlice (connected\<lparr>usernames := [''U1'' \<mapsto> ''alice'']\<rparr>) ''U1'' [''U1'']
     = (''alice'', connected\<lparr>usernames := [''U1'' \<mapsto> ''alice'']\<rparr>, [''U1''])
   \<and> getUserName alwaysTimeout connected ''U1'' [] = ([], connected, [''U1''])
   \<and> snd (snd (getUserName alwaysTimeout connected ''U1'' [''U1''])) = [''U1'', ''U1'']
   \<and> distinct (snd (snd (intakeLoop alwaysAlice connected
        [Some (frameFrom ''C1'' ''U1''), Some (frameFrom ''C1'' ''U1''),
         Some (frameFrom ''C1'' ''U2'')] [])))"
  using getUserName_lookups [where hit = "connected\<lparr>usernames := [''U1'' \<mapsto> ''alice'']\<rparr>"
      and uid = "''U1''" and nm = "''alice''" and net = alwaysAlice and reqs = "[]"
      and miss = connected and data = "\<lparr>UserOK = IsBool True, UserName = ''alice''\<rparr>"
      and bad = alwaysTimeout and e = "Error ''timeout''" and good = alwaysAlice
      and p = connected
      and rds = "[Some (frameFrom ''C1'' ''U1''), Some (frameFrom ''C1'' ''U1''),
                  Some (frameFrom ''C1'' ''U2'')]"]
  by (simp add: connected_def alwaysAlice_def alwaysTimeout_def)

subsection \<open>C5: a handshake that is answered with ok false\<close>

text \<open>
  C5 says that every failed handshake sets \<^verbatim>\<open>err\<close> to an error that is not nil and
  that nothing clears \<^verbatim>\<open>err\<close>. The two branches of the type switch assign the \<^verbatim>\<open>err\<close> of
  \<^verbatim>\<open>http.Get\<close>, which is nil there: on a connection whose \<^verbatim>\<open>err\<close> is set, a handshake
  that is answered with \<^verbatim>\<open>{"ok": false}\<close> leaves \<^verbatim>\<open>err\<close> nil.
\<close>

theorem handshake_not_ok_clears_err:
  "err (connected\<lparr>err := Some (Error ''EOF'')\<rparr>) = Some (Error ''EOF'')
   \<and> err (handshake (connected\<lparr>err := Some (Error ''EOF'')\<rparr>)
           (Decoded \<lparr>OK = IsBool False, URL = [], SelfID = []\<rparr>)) = None"
  by (simp add: handshake_def connected_def)

subsection \<open>C6: the reconnect loop after a failed construction\<close>

text \<open>
  C6, as the code has it. When \<^verbatim>\<open>Slack(token)\<close> ends with \<^verbatim>\<open>err\<close> set, the intake and
  the dispatch loop are not started and there is no socket, and \<^verbatim>\<open>reconnect\<close>, which is
  started, leaves its loop in its first round: it calls neither \<^verbatim>\<open>handshake\<close> nor
  \<^verbatim>\<open>dial\<close>, whatever the network would answer.
\<close>

theorem reconnect_stops_without_socket:
  assumes "err (fst (Slack tok resp d)) \<noteq> None"
  shows "\<not> snd (Slack tok resp d)
         \<and> wsConn (fst (Slack tok resp d)) = None
         \<and> reconnect (fst (Slack tok resp d)) (t # ts) []
             = (fst (Slack tok resp d), Stopped, [])"
  using assms Slack_err_no_socket [OF assms] by (simp add: Slack_def Let_def)

text \<open>The theorem for a construction whose handshake times out.\<close>

theorem reconnect_stops_witness:
  "err (fst (Slack ''xoxb'' (GetError (Error ''timeout'')) (Conn 1))) = Some (Error
      ''could not connnect to Slack HTTP WS rtm. please, check your connection and your token (GOCHATBOT_SLACK_TOKEN). error: timeout'')
   \<and> \<not> snd (Slack ''xoxb'' (GetError (Error ''timeout'')) (Conn 1))
   \<and> wsConn (fst (Slack ''xoxb'' (GetError (Error ''timeout'')) (Conn 1))) = None
   \<and> reconnect (fst (Slack ''xoxb'' (GetError (Error ''timeout'')) (Conn 1)))
        [WriteFailed okHandshake (Conn 2), WriteOK] []
      = (fst (Slack ''xoxb'' (GetError (Error ''timeout'')) (Conn 1)), Stopped, [])"
proof -
  have e: "err (fst (Slack ''xoxb'' (GetError (Error ''timeout'')) (Conn 1))) = Some (Error
      ''could not connnect to Slack HTTP WS rtm. please, check your connection and your token (GOCHATBOT_SLACK_TOKEN). error: timeout'')"
    by (simp add: Slack_def handshake_def dial_def showError_def slackEnvVarName_def)
  then have "err (fst (Slack ''xoxb'' (GetError (Error ''timeout'')) (Conn 1))) \<noteq> None"
    by simp
  from reconnect_stops_without_socket [OF this] e show ?thesis
    by simp
qed

text \<open>
  C6 as stated fails when the handshake succeeds and the dial fails: \<^verbatim>\<open>err\<close> is set,
  there is no socket, and in two rounds in which the network would answer a new
  handshake and a new dial, \<^verbatim>\<open>reconnect\<close> stops and has called neither.
\<close>

theorem reconnect_counterexample:
  "err (fst (Slack ''xoxb'' okHandshake (DialError (Error ''timeout''))))
     = Some (Error ''timeout'')
   \<and> wsConn (fst (Slack ''xoxb'' okHandshake (DialError (Error ''timeout'')))) = None
   \<and> snd (reconnect (fst (Slack ''xoxb'' okHandshake (DialError (Error ''timeout''))))
        [WriteFailed okHandshake (Conn 2), WriteFailed okHandshake (Conn 2)] [])
      = (Stopped, [])"
  by (simp add: Slack_def handshake_def dial_def okHandshake_def)

subsection \<open>C7: a rule that panics\<close>

text \<open>
  C7. Let \<open>m\<close> be an inbound message that is not a help request, and let the rule \<open>r\<close>
  panic on it after the rules \<open>rs1\<close> before it have returned. The panic is recovered
  in the task of \<open>m\<close> and logged; the task has sent the results of \<open>rs1\<close> and sends
  nothing for \<open>r\<close> and the rules \<open>rs2\<close> after it; the loop of \<^verbatim>\<open>Process\<close> goes on, and
  the messages before and after \<open>m\<close> have the outcomes they have without \<open>m\<close>.
\<close>

theorem rule_panic_recovered:
  assumes "\<not> isHelp s m"
    and "rules s = rs1 @ r # rs2"
    and "\<And>x. x \<in> set rs1 \<Longrightarrow> ParseMessage R x s m = Inr (f x)"
    and "ParseMessage R r s m = Inl p"
    and "\<not> list_ex crashed (mainLoop R s before)"
  shows "mainLoop R s (before @ m # after) =
           mainLoop R s before @ Recovered (concat (map f rs1)) p # mainLoop R s after"
  using assms by (simp add: mainLoop_append mainLoop_rule ruleTask_def ruleLoop_panics)

text \<open>
  The theorem for the rules \<open>Echo\<close>, \<open>Boom\<close>, \<open>Echo\<close> and the message \<^verbatim>\<open>hi\<close> between two
  help requests.
\<close>

theorem rule_panic_recovered_witness:
  "\<not> isHelp (bender [Echo, Boom, Echo]) (fromAlice ''hi'')
   \<and> map (\<lambda>r. ParseMessage exampleRules r (bender [Echo, Boom, Echo]) (fromAlice ''hi''))
        (rules (bender [Echo, Boom, Echo]))
       = [Inr [toAlice ''hi''], Inl (Panic ''boom''), Inr [toAlice ''hi'']]
   \<and> mainLoop exampleRules (bender [Echo, Boom, Echo])
        [fromAlice ''bender help'', fromAlice ''hi'', fromAlice ''bender help'']
       = [Finished [toAlice ''available commands:\<newline> echo: repeats your message\<newline> boom: panics\<newline> echo: repeats your message\<newline>''],
          Recovered [toAlice ''hi''] (Panic ''boom''),
          Finished [toAlice ''available commands:\<newline> echo: repeats your message\<newline> boom: panics\<newline> echo: repeats your message\<newline>'']]"
proof -
  let ?s = "bender [Echo, Boom, Echo]"
  have a: "\<not> isHelp ?s (fromAlice ''hi'')"
    by (simp add: isHelp_def Name_def bender_def fromAlice_def)
  have r: "rules ?s = [Echo] @ Boom # [Echo]"
    by (simp add: bender_def)
  have b: "\<And>x. x \<in> set [Echo] \<Longrightarrow>
      ParseMessage exampleRules x ?s (fromAlice ''hi'') = Inr ((\<lambda>r. [toAlice ''hi'']) x)"
    by (simp add: exampleRules_def fromAlice_def toAlice_def)
  have p: "ParseMessage exampleRules Boom ?s (fromAlice ''hi'') = Inl (Panic ''boom'')"
    by (simp add: exampleRules_def)
  have h: "mainLoop exampleRules ?s [fromAlice ''bender help'']
       = [Finished [toAlice ''available commands:\<newline> echo: repeats your message\<newline> boom: panics\<newline> echo: repeats your message\<newline>'']]"
    by (simp add: isHelp_def Name_def bender_def fromAlice_def helpTask_def exampleRules_def
        toAlice_def)
  have c: "\<not> list_ex crashed (mainLoop exampleRules ?s [fromAlice ''bender help''])"
    by (simp only: h) simp
  from rule_panic_recovered [OF a r b p c, of "[fromAlice ''bender help'']"] h a b p
  show ?thesis
    by (simp add: bender_def)
qed

subsection \<open>C8: Process runs once\<close>

text \<open>
  C8, as the code has it. \<^verbatim>\<open>processOnce\<close> is one variable of the package, shared by all
  bots. In a program where it has not fired, the first call of \<^verbatim>\<open>Process\<close>, on
  whatever bot, runs the loop of that bot; every later call, on that bot or on any
  other, runs no loop. In a program where it has fired no call runs a loop.
\<close>

theorem Process_once_per_program:
  "calls (ProcessCalls R w cs) =
     calls w @
       (if processOnce w then map (\<lambda>c. (fst c, None)) cs
        else case cs of
               [] \<Rightarrow> []
             | c # cs' \<Rightarrow>
                 (fst c, Some (mainLoop R (bots w (fst c)) (snd c)))
                   # map (\<lambda>c. (fst c, None)) cs')"
  by (cases cs) (auto simp: ProcessCalls_once Process_def)

text \<open>
  C8 as stated fails for two bots: after \<^verbatim>\<open>Process\<close> on the bot at address 0, the first
  call of \<^verbatim>\<open>Process\<close> on the bot at address 1 runs no loop, though a message waits on
  its channel.
\<close>

theorem Process_once_counterexample:
  "calls (ProcessCalls exampleRules program0 [(0, [fromAlice ''hi'']), (1, [fromAlice ''hi''])])
     = [(0, Some [Finished [toAlice ''hi'']]), (1, None)]"
  by (simp add: program0_def Process_def isHelp_def Name_def bender_def fromAlice_def
      ruleTask_def exampleRules_def toAlice_def)

subsection \<open>C9: the message of an accepted frame\<close>



text \<open>
  The declared structure has no place for three of the seven fields: two messages
  that differ in \<^verbatim>\<open>ToUserID\<close>, \<^verbatim>\<open>ToUserName\<close> and \<^verbatim>\<open>Direct\<close> only are the same value of
  it. For the message of the frame on \<open>D42\<close> above it holds the room, the sender and
  the text, and nothing of \<^verbatim>\<open>Direct\<close>.
\<close>

lemma declared_lacks_fields:
  "declared (m\<lparr>ToUserID := a, ToUserName := b, Direct := d\<rparr>) = declared m"
  by (simp add: declared_def)

lemma declared_intake_message:
  "declared \<lparr>Room = ''D42'', FromUserID = ''U1'', FromUserName = ''alice'', ToUserID = [],
             ToUserName = [], Message = ''hi'', Direct = True\<rparr>
     = \<lparr>declRoom = ''D42'', declFromUserID = ''U1'', declFromUserName = ''alice'',
        declMessage = ''hi''\<rparr>
   \<and> declared \<lparr>Room = ''D42'', FromUserID = ''U1'', FromUserName = ''alice'', ToUserID = [],
               ToUserName = [], Message = ''hi'', Direct = True\<rparr>
     = declared \<lparr>Room = ''D42'', FromUserID = ''U1'', FromUserName = ''alice'', ToUserID = [],
                 ToUserName = [], Message = ''hi'', Direct = False\<rparr>"
  by (simp add: declared_def)

subsection \<open>C10: Process leaves the bots as they are\<close>

text \<open>
  C10. Each task gets the bot as a value, and \<^verbatim>\<open>Process\<close> writes to no field of it:
  after any calls of \<^verbatim>\<open>Process\<close> on any inbound messages, every bot has the name, the
  rules and the brain it had before.
\<close>

theorem Process_keeps_bots:
  "name (bots (ProcessCalls R w cs) a) = name (bots w a)
   \<and> rules (bots (ProcessCalls R w cs) a) = rules (bots w a)
   \<and> brain (bots (ProcessCalls R w cs) a) = brain (bots w a)"
  by (induction cs arbitrary: w) (auto simp: Process_bots)

end
